theory Spec2Isabelle
  imports Complex_Main "HOL-Library.Multiset"
begin

section \<open>The table engine of NumeRe (kernel/core/datamanagement/memory.cpp)\<close>

subsection \<open>Cell values\<close>

text \<open>
  A cell is a \<^verbatim>\<open>double\<close> (or \<^verbatim>\<open>mu::value_type\<close>) that is either the missing value
  NaN or a number. Numbers are idealised as exact reals: rounding, overflow, infinities and
  signed zeros are outside this model. \<open>isnan\<close> is the only test that is true of NaN;
  every comparison with NaN is false except \<open>!=\<close>, which is true.
\<close>

datatype dbl = NaN | Val real

fun isnan :: "dbl \<Rightarrow> bool" where
  "isnan NaN = True"
| "isnan (Val _) = False"

fun dadd :: "dbl \<Rightarrow> dbl \<Rightarrow> dbl" where
  "dadd (Val a) (Val b) = Val (a + b)"
| "dadd _ _ = NaN"

fun dsub :: "dbl \<Rightarrow> dbl \<Rightarrow> dbl" where
  "dsub (Val a) (Val b) = Val (a - b)"
| "dsub _ _ = NaN"

fun dmul :: "dbl \<Rightarrow> dbl \<Rightarrow> dbl" where
  "dmul (Val a) (Val b) = Val (a * b)"
| "dmul _ _ = NaN"

text \<open>
  Division: \<open>0 / 0\<close> is NaN. A non-zero number divided by zero is an infinity in IEEE
  arithmetic; the model has no infinities and yields the invalid value NaN there as well.
\<close>

fun ddiv :: "dbl \<Rightarrow> dbl \<Rightarrow> dbl" where
  "ddiv (Val a) (Val b) = (if b = 0 then NaN else Val (a / b))"
| "ddiv _ _ = NaN"

fun dsqrt :: "dbl \<Rightarrow> dbl" where
  "dsqrt (Val a) = (if a < 0 then NaN else Val (sqrt a))"
| "dsqrt NaN = NaN"

text \<open>\<^verbatim>\<open>a != 0\<close> on a double: true for NaN.\<close>

fun dne0 :: "dbl \<Rightarrow> bool" where
  "dne0 NaN = True"
| "dne0 (Val a) = (a \<noteq> 0)"

text \<open>Conversion of a signed integer to \<^verbatim>\<open>size_t\<close> (64 bit, wrapping).\<close>

definition to_size_t :: "int \<Rightarrow> nat" where
  "to_size_t i = nat (i mod 2 ^ 64)"

subsection \<open>Columns\<close>

text \<open>
  Modelled from the spec: the column class (\<^verbatim>\<open>TableColumn\<close>/\<^verbatim>\<open>ValueColumn\<close> of
  tablecolumnimpl.hpp) is not part of the given sources. The spec describes a column as an
  ordered sequence of cells indexed from 0 with NaN for a missing cell, whose length is the
  high-water mark of written cells (cells beyond it are absent and read as NaN), and which
  carries a mutable headline; compaction drops the trailing missing cells.
\<close>

record TableColumn =
  m_data :: "dbl list"
  m_sHeadLine :: string

definition ValueColumn :: TableColumn where
  "ValueColumn = \<lparr>m_data = [], m_sHeadLine = ''''\<rparr>"

definition getValue :: "TableColumn \<Rightarrow> nat \<Rightarrow> dbl" where
  "getValue c i = (if i < length (m_data c) then m_data c ! i else NaN)"

definition setValue :: "TableColumn \<Rightarrow> nat \<Rightarrow> dbl \<Rightarrow> TableColumn" where
  "setValue c i v =
     c\<lparr>m_data := (if i < length (m_data c) then (m_data c)[i := v]
                   else m_data c @ replicate (i - length (m_data c)) NaN @ [v])\<rparr>"

definition col_size :: "TableColumn \<Rightarrow> nat" where
  "col_size c = length (m_data c)"

definition col_shrink :: "TableColumn \<Rightarrow> TableColumn" where
  "col_shrink c = c\<lparr>m_data := rev (dropWhile isnan (rev (m_data c)))\<rparr>"

subsection \<open>The table\<close>

text \<open>
  \<open>memArray\<close> is the vector of column pointers (\<open>None\<close> is a null pointer, a column that
  is not materialised). \<open>nCalcLines\<close> is the cached line count, \<open>-1\<close> when invalid.
  The statistics, sorting and retouching functions of this revision read the members
  \<open>dMemTable\<close> (a \<^verbatim>\<open>double**\<close> indexed by line, then column) and \<open>bValidData\<close>, whose
  declarations are in memory.hpp, outside the given sources; they are fields of the state
  here. \<open>dMemTable\<close> is total: an access outside the allocated block is undefined behaviour
  in the C++ and is not distinguished.
\<close>

record Memory =
  memArray :: "TableColumn option list"
  nCalcLines :: int
  bSaveMutex :: bool
  bIsSaved :: bool
  nLastSaved :: int
  dMemTable :: "int \<Rightarrow> int \<Rightarrow> dbl"
  bValidData :: bool

datatype error = TOO_LARGE_CACHE | CANNOT_SORT_CACHE | OUT_OF_BOUNDS | BAD_ARRAY_LENGTH

definition MAX_TABLE_SIZE :: nat where
  "MAX_TABLE_SIZE = 100000000"

definition MAX_TABLE_COLS :: nat where
  "MAX_TABLE_COLS = 10000"

text \<open>
  The default constructor; \<open>now\<close> is the value of \<^verbatim>\<open>time(0)\<close>. The constructor does not
  touch \<open>dMemTable\<close> and \<open>bValidData\<close>, which are passed in.
\<close>

definition Memory_ctor :: "int \<Rightarrow> (int \<Rightarrow> int \<Rightarrow> dbl) \<Rightarrow> bool \<Rightarrow> Memory" where
  "Memory_ctor now tbl valid =
     \<lparr>memArray = [], nCalcLines = -1, bSaveMutex = False, bIsSaved = True,
      nLastSaved = now, dMemTable = tbl, bValidData = valid\<rparr>"

text \<open>\<^verbatim>\<open>std::vector::resize(n)\<close> with value-initialised (here: given) new elements.\<close>

definition vec_resize :: "'a list \<Rightarrow> nat \<Rightarrow> 'a \<Rightarrow> 'a list" where
  "vec_resize xs n d = take n xs @ replicate (n - length xs) d"

definition Allocate :: "Memory \<Rightarrow> nat \<Rightarrow> bool \<Rightarrow> error + Memory" where
  "Allocate T nNCols shrink =
     (if nNCols > MAX_TABLE_COLS then Inl TOO_LARGE_CACHE
      else
        let T1 = T\<lparr>memArray := vec_resize (memArray T) nNCols None\<rparr>
        in Inr (if shrink
                then T1\<lparr>memArray := map (map_option col_shrink) (memArray T1)\<rparr>
                else T1))"

text \<open>\<open>Allocate\<close> returns \<open>true\<close> or throws, so \<open>resizeMemory\<close> never returns \<open>false\<close>.\<close>

definition resizeMemory :: "Memory \<Rightarrow> nat \<Rightarrow> nat \<Rightarrow> error + Memory" where
  "resizeMemory T nLines nCols = Allocate T nCols False"

definition getCols :: "Memory \<Rightarrow> nat" where
  "getCols T = length (memArray T)"

text \<open>
  \<open>getLines\<close> is \<^verbatim>\<open>const\<close> but writes the mutable cache, so it returns the state too.
  The cached \<^verbatim>\<open>int\<close> is converted to \<^verbatim>\<open>size_t\<close> on return.
\<close>

definition getLines :: "Memory \<Rightarrow> nat \<times> Memory" where
  "getLines T =
     (if memArray T \<noteq> [] then
        (if nCalcLines T \<noteq> -1 then (to_size_t (nCalcLines T), T)
         else
           let nReturn = fold (\<lambda>col n. case col of
                                   None \<Rightarrow> n
                                 | Some c \<Rightarrow> if col_size c > n then col_size c else n)
                              (memArray T) 0
           in (nReturn, T\<lparr>nCalcLines := int nReturn\<rparr>))
      else (0, T))"

definition readMem :: "Memory \<Rightarrow> nat \<Rightarrow> nat \<Rightarrow> dbl" where
  "readMem T nLine nCol =
     (if length (memArray T) > nCol then
        (case memArray T ! nCol of
           Some c \<Rightarrow> getValue c nLine
         | None \<Rightarrow> NaN)
      else NaN)"

fun nanAvg_loop :: "dbl list \<Rightarrow> dbl \<Rightarrow> real \<Rightarrow> dbl \<times> real" where
  "nanAvg_loop [] dSum c = (dSum, c)"
| "nanAvg_loop (val # values) dSum c =
     (if \<not> isnan val then nanAvg_loop values (dadd dSum val) (c + 1)
      else nanAvg_loop values dSum c)"

definition nanAvg :: "dbl list \<Rightarrow> dbl" where
  "nanAvg values =
     (case nanAvg_loop values (Val 0) 0 of
        (dSum, c) \<Rightarrow> if c \<noteq> 0 then ddiv dSum (Val c) else dSum)"

text \<open>
  \<open>intCast\<close> (utils/tools.hpp) is not part of the given sources and is a parameter. The
  coordinates are doubles; the base indices are signed and are converted to \<^verbatim>\<open>size_t\<close>
  at the calls of \<open>readMem\<close>.
\<close>

definition readMemInterpolated :: "(real \<Rightarrow> int) \<Rightarrow> Memory \<Rightarrow> dbl \<Rightarrow> dbl \<Rightarrow> dbl" where
  "readMemInterpolated intCast T dLine dCol =
     (case (dLine, dCol) of
        (Val l, Val c) \<Rightarrow>
          let nBaseLine = intCast l + (if l < 0 then -1 else 0);
              nBaseCol = intCast c + (if c < 0 then -1 else 0);
              x = l - real_of_int nBaseLine;
              y = c - real_of_int nBaseCol;
              f00 = readMem T (to_size_t nBaseLine) (to_size_t nBaseCol);
              f10 = readMem T (to_size_t (nBaseLine + 1)) (to_size_t nBaseCol);
              f01 = readMem T (to_size_t nBaseLine) (to_size_t (nBaseCol + 1));
              f11 = readMem T (to_size_t (nBaseLine + 1)) (to_size_t (nBaseCol + 1))
          in if isnan f00 \<and> isnan f01 \<and> isnan f10 \<and> isnan f11 then NaN
             else
               let dNanAvg = nanAvg [f00, f01, f10, f11];
                   g00 = (if isnan f00 then dNanAvg else f00);
                   g10 = (if isnan f10 then dNanAvg else f10);
                   g01 = (if isnan f01 then dNanAvg else f01);
                   g11 = (if isnan f11 then dNanAvg else f11)
               in dadd (dadd (dadd (dmul (dmul g00 (Val (1 - x))) (Val (1 - y)))
                                   (dmul (dmul g10 (Val x)) (Val (1 - y))))
                             (dmul (dmul g01 (Val (1 - x))) (Val y)))
                       (dmul (dmul g11 (Val x)) (Val y))
      | _ \<Rightarrow> NaN)"

text \<open>
  \<open>writeData\<close> for one cell. \<open>now\<close> is \<^verbatim>\<open>time(0)\<close>. The arguments are \<^verbatim>\<open>size_t\<close>, so
  \<open>+ 1\<close> wraps at \<open>2 ^ 64\<close>; indexing \<open>memArray\<close> beyond its size is undefined behaviour
  in the C++ and is the result \<open>OUT_OF_BOUNDS\<close> here. The comparison of the line with the
  cached count converts the cache to \<^verbatim>\<open>size_t\<close>.
\<close>

definition writeData :: "int \<Rightarrow> Memory \<Rightarrow> nat \<Rightarrow> nat \<Rightarrow> dbl \<Rightarrow> error + Memory" where
  "writeData now T nLine nCol dData =
     (if memArray T = [] \<and> isnan dData then Inr T
      else
        case (if length (memArray T) \<le> nCol
              then resizeMemory T ((nLine + 1) mod 2 ^ 64) ((nCol + 1) mod 2 ^ 64)
              else Inr T) of
          Inl e \<Rightarrow> Inl e
        | Inr T1 \<Rightarrow>
            if length (memArray T1) \<le> nCol then Inl OUT_OF_BOUNDS
            else
              let col = (case memArray T1 ! nCol of None \<Rightarrow> ValueColumn | Some c \<Rightarrow> c);
                  T2 = T1\<lparr>memArray := (memArray T1)[nCol := Some (setValue col nLine dData)]\<rparr>;
                  T3 = (if (isnan dData \<or> nLine \<ge> to_size_t (nCalcLines T2))
                           \<and> nCalcLines T2 \<noteq> -1
                        then T2\<lparr>nCalcLines := -1\<rparr> else T2)
              in Inr (if bIsSaved T3 then T3\<lparr>nLastSaved := now, bIsSaved := False\<rparr> else T3))"


subsection \<open>Block reads\<close>

text \<open>
  The class \<^verbatim>\<open>VectorIndex\<close> is declared outside the given sources. A selection is
  modelled by the sequence of (signed) indices that \<^verbatim>\<open>operator[]\<close> yields for
  \<open>0 \<le> n < size()\<close>, after any open end has been resolved.
\<close>

type_synonym VectorIndex = "int list"

text \<open>The inner loop over \<open>j\<close>; \<open>vReturn\<close> grows by \<^verbatim>\<open>push_back\<close>.\<close>

fun readMem_cols :: "Memory \<Rightarrow> int \<Rightarrow> VectorIndex \<Rightarrow> dbl list \<Rightarrow> dbl list" where
  "readMem_cols T l [] vReturn = vReturn"
| "readMem_cols T l (c # cs) vReturn =
     readMem_cols T l cs
       (vReturn @
        [if c < 0 \<or> nat c \<ge> length (memArray T) then NaN
         else case memArray T ! nat c of
                None \<Rightarrow> NaN
              | Some col \<Rightarrow> getValue col (to_size_t l)])"

fun readMem_lines :: "Memory \<Rightarrow> VectorIndex \<Rightarrow> VectorIndex \<Rightarrow> dbl list \<Rightarrow> dbl list" where
  "readMem_lines T [] vCol vReturn = vReturn"
| "readMem_lines T (l # ls) vCol vReturn =
     readMem_lines T ls vCol (readMem_cols T l vCol vReturn)"

definition readMem_vec :: "Memory \<Rightarrow> VectorIndex \<Rightarrow> VectorIndex \<Rightarrow> dbl list" where
  "readMem_vec T vLine vCol =
     (if (length vLine > 1 \<and> length vCol > 1) \<or> memArray T = [] then [NaN]
      else readMem_lines T vLine vCol [])"


subsection \<open>Statistics over a selection\<close>

text \<open>
  Every reduction runs the same two nested loops, over \<open>_vLine\<close> and inside over
  \<open>_vCol\<close>. \<open>foreach_cell\<close> is that row-major iteration with the loop body as argument:
  the body gets the line index, the column index and the loop's variable, and a
  \<^verbatim>\<open>continue\<close> returns the variable unchanged.
\<close>

definition foreach_cell :: "(int \<Rightarrow> int \<Rightarrow> 'a \<Rightarrow> 'a) \<Rightarrow> VectorIndex \<Rightarrow> VectorIndex \<Rightarrow> 'a \<Rightarrow> 'a" where
  "foreach_cell body vLine vCol a = fold (\<lambda>l. fold (\<lambda>c. body l c) vCol) vLine a"

text \<open>
  The reductions are \<^verbatim>\<open>const\<close>; their calls of \<open>getLines\<close> only fill the cache and
  return the same count every time (lemma \<open>getLines_again\<close>), so the count is read with
  \<open>fst\<close>. The counts are converted to \<^verbatim>\<open>long long\<close>. \<open>sum_func\<close> is the member
  function \<open>sum\<close>.
\<close>

definition n_lines :: "Memory \<Rightarrow> int" where
  "n_lines T = int (fst (getLines T))"

definition n_cols :: "Memory \<Rightarrow> int" where
  "n_cols T = int (getCols T)"

definition sum_func :: "Memory \<Rightarrow> VectorIndex \<Rightarrow> VectorIndex \<Rightarrow> dbl" where
  "sum_func T vLine vCol =
     (if \<not> bValidData T then NaN
      else
        let lines = n_lines T; cols = n_cols T
        in foreach_cell
             (\<lambda>l c dSum.
                if l < 0 \<or> l \<ge> lines \<or> c < 0 \<or> c \<ge> cols then dSum
                else if isnan (dMemTable T l c) then dSum
                else dadd dSum (dMemTable T l c))
             vLine vCol (Val 0))"

definition num :: "Memory \<Rightarrow> VectorIndex \<Rightarrow> VectorIndex \<Rightarrow> dbl" where
  "num T vLine vCol =
     (if \<not> bValidData T then Val 0
      else
        let lines = n_lines T; cols = n_cols T;
            nInvalid = foreach_cell
              (\<lambda>l c (nInvalid::int).
                 if l < 0 \<or> l \<ge> lines \<or> c < 0 \<or> c \<ge> cols then nInvalid + 1
                 else if isnan (dMemTable T l c) then nInvalid + 1
                 else nInvalid)
              vLine vCol 0
        in Val (real_of_int (int (length vLine * length vCol) - nInvalid)))"

definition avg :: "Memory \<Rightarrow> VectorIndex \<Rightarrow> VectorIndex \<Rightarrow> dbl" where
  "avg T vLine vCol =
     (if \<not> bValidData T then NaN
      else ddiv (sum_func T vLine vCol) (num T vLine vCol))"

definition std :: "Memory \<Rightarrow> VectorIndex \<Rightarrow> VectorIndex \<Rightarrow> dbl" where
  "std T vLine vCol =
     (if \<not> bValidData T then NaN
      else
        let dAvg = avg T vLine vCol;
            lines = n_lines T; cols = n_cols T;
            dStd = foreach_cell
              (\<lambda>l c dStd.
                 if l < 0 \<or> l \<ge> lines \<or> c < 0 \<or> c \<ge> cols then dStd
                 else if isnan (dMemTable T l c) then dStd
                 else dadd dStd (dmul (dsub dAvg (dMemTable T l c))
                                      (dsub dAvg (dMemTable T l c))))
              vLine vCol (Val 0)
        in dsqrt (ddiv dStd (dsub (num T vLine vCol) (Val 1))))"

text \<open>
  \<open>or_func\<close> leaves its loops with \<^verbatim>\<open>return 1.0\<close>: the loop functions give
  \<open>Some\<close> of the returned value, or \<open>None\<close> when the loop ran to its end.
\<close>

fun or_func_cols :: "Memory \<Rightarrow> int \<Rightarrow> int \<Rightarrow> int \<Rightarrow> VectorIndex \<Rightarrow> dbl option" where
  "or_func_cols T lines cols l [] = None"
| "or_func_cols T lines cols l (c # cs) =
     (if l < 0 \<or> l \<ge> lines \<or> c < 0 \<or> c \<ge> cols then or_func_cols T lines cols l cs
      else if isnan (dMemTable T l c) \<or> dne0 (dMemTable T l c) then Some (Val 1)
      else or_func_cols T lines cols l cs)"

fun or_func_lines :: "Memory \<Rightarrow> int \<Rightarrow> int \<Rightarrow> VectorIndex \<Rightarrow> VectorIndex \<Rightarrow> dbl option" where
  "or_func_lines T lines cols [] vCol = None"
| "or_func_lines T lines cols (l # ls) vCol =
     (case or_func_cols T lines cols l vCol of
        Some r \<Rightarrow> Some r
      | None \<Rightarrow> or_func_lines T lines cols ls vCol)"

definition or_func :: "Memory \<Rightarrow> VectorIndex \<Rightarrow> VectorIndex \<Rightarrow> dbl" where
  "or_func T vLine vCol =
     (if \<not> bValidData T then Val 0
      else
        case or_func_lines T (n_lines T) (n_cols T) vLine vCol of
          Some r \<Rightarrow> r
        | None \<Rightarrow> Val 0)"

text \<open>
  Modelled from the spec: \<open>qSortDouble\<close> (utils/tools.hpp) and the two GSL routines are not
  part of the given sources. The spec says that median and percentile sort a NaN-filtered
  snapshot and use order statistics. \<open>qSortDouble\<close> sorts the snapshot ascending and
  returns the number of its (valid) elements; the median of sorted data is the middle
  element or the mean of the two middle elements; the quantile is the linear interpolation
  between the two order statistics around the position \<open>f * (n - 1)\<close>.
\<close>

definition qSortDouble :: "real list \<Rightarrow> real list \<times> nat" where
  "qSortDouble vData = (sort vData, length vData)"

definition gsl_stats_median_from_sorted_data :: "real list \<Rightarrow> nat \<Rightarrow> real" where
  "gsl_stats_median_from_sorted_data sorted_data n =
     (let lhs = (n - 1) div 2; rhs = n div 2
      in if n = 0 then 0
         else if lhs = rhs then sorted_data ! lhs
         else (sorted_data ! lhs + sorted_data ! rhs) / 2)"

definition gsl_stats_quantile_from_sorted_data :: "real list \<Rightarrow> nat \<Rightarrow> real \<Rightarrow> real" where
  "gsl_stats_quantile_from_sorted_data sorted_data n f =
     (if n = 0 then 0
      else
        let index = f * real (n - 1);
            lhs = nat \<lfloor>index\<rfloor>;
            delta = index - real lhs
        in if lhs = n - 1 then sorted_data ! lhs
           else (1 - delta) * sorted_data ! lhs + delta * sorted_data ! (lhs + 1))"

text \<open>The snapshot \<open>vData\<close> that \<open>med\<close> and \<open>pct\<close> collect; it holds numbers only.\<close>

definition collect_vData :: "Memory \<Rightarrow> VectorIndex \<Rightarrow> VectorIndex \<Rightarrow> real list" where
  "collect_vData T vLine vCol =
     (let lines = n_lines T; cols = n_cols T
      in foreach_cell
           (\<lambda>l c vData.
              if l < 0 \<or> l \<ge> lines \<or> c < 0 \<or> c \<ge> cols \<or> isnan (dMemTable T l c) then vData
              else case dMemTable T l c of Val x \<Rightarrow> vData @ [x] | NaN \<Rightarrow> vData)
           vLine vCol [])"

definition med :: "Memory \<Rightarrow> VectorIndex \<Rightarrow> VectorIndex \<Rightarrow> dbl" where
  "med T vLine vCol =
     (if \<not> bValidData T then NaN
      else
        let vData = collect_vData T vLine vCol
        in if vData = [] then NaN
           else case qSortDouble vData of
                  (vSorted, nCount) \<Rightarrow>
                    if nCount = 0 then NaN
                    else Val (gsl_stats_median_from_sorted_data vSorted nCount))"

text \<open>The quantile argument \<open>dPct\<close> is taken as a number; its range is tested first.\<close>

definition pct :: "Memory \<Rightarrow> VectorIndex \<Rightarrow> VectorIndex \<Rightarrow> real \<Rightarrow> dbl" where
  "pct T vLine vCol dPct =
     (if \<not> bValidData T then NaN
      else if dPct \<ge> 1 \<or> dPct \<le> 0 then NaN
      else
        let vData = collect_vData T vLine vCol
        in if vData = [] then NaN
           else case qSortDouble vData of
                  (vSorted, nCount) \<Rightarrow>
                    if nCount = 0 then NaN
                    else Val (gsl_stats_quantile_from_sorted_data vSorted nCount dPct))"

subsection \<open>Retouching along one direction\<close>

datatype AppDir = ALL | LINES | COLS | GRID

type_synonym table = "int \<Rightarrow> int \<Rightarrow> dbl"

definition rd :: "table \<Rightarrow> int \<times> int \<Rightarrow> dbl" where
  "rd t p = t (fst p) (snd p)"

definition wr :: "table \<Rightarrow> int \<times> int \<Rightarrow> dbl \<Rightarrow> table" where
  "wr t p v = t(fst p := (t (fst p))(snd p := v))"

text \<open>
  The two branches of \<open>retouch1D\<close> are the same loops with the roles of lines and columns
  exchanged. \<open>pos\<close> maps the position \<open>k\<close> within the scanned index to the table
  coordinate \<open>(_vLine[..], _vCol[..])\<close>, and \<open>n\<close> is the size of the scanned index. The
  loop variables \<open>i\<close>, \<open>_i\<close> and \<open>__i\<close> of the column branch are \<open>i\<close>, \<open>i1\<close> and \<open>k\<close>.
  Every fill loop reads the table as it is at that iteration.
\<close>

definition fill_interpolated :: "(nat \<Rightarrow> int \<times> int) \<Rightarrow> nat \<Rightarrow> nat \<Rightarrow> table \<Rightarrow> table" where
  "fill_interpolated pos i i1 t =
     fold (\<lambda>k t. wr t (pos k)
                   (dadd (dmul (ddiv (dsub (rd t (pos i1)) (rd t (pos (i - 1))))
                                     (Val (real (i1 - i))))
                               (Val (real (k - i + 1))))
                         (rd t (pos (i - 1)))))
          [i..<i1] t"

definition fill_copy :: "(nat \<Rightarrow> int \<times> int) \<Rightarrow> nat \<Rightarrow> nat \<Rightarrow> nat \<Rightarrow> table \<Rightarrow> table" where
  "fill_copy pos src k0 k1 t = fold (\<lambda>k t. wr t (pos k) (rd t (pos src))) [k0..<k1] t"

text \<open>
  The loop over \<open>_i\<close>, entered at a NaN cell \<open>i\<close>. A \<^verbatim>\<open>break\<close> ends the recursion. The
  second component of the state is \<open>markModified\<close>.
\<close>

fun retouch_scan ::
  "(nat \<Rightarrow> int \<times> int) \<Rightarrow> nat \<Rightarrow> nat \<Rightarrow> nat list \<Rightarrow> table \<times> bool \<Rightarrow> table \<times> bool" where
  "retouch_scan pos n i [] s = s"
| "retouch_scan pos n i (i1 # rest) (t, m) =
     (if \<not> isnan (rd t (pos i1)) \<and> i \<noteq> 0 then (fill_interpolated pos i i1 t, True)
      else if \<not> isnan (rd t (pos i1)) \<and> i1 + 1 < n then (fill_copy pos i1 i i1 t, True)
      else if i \<noteq> 0 \<and> i1 + 1 = n \<and> isnan (rd t (pos i1))
           then retouch_scan pos n i rest (fill_copy pos (i - 1) i n t, True)
      else retouch_scan pos n i rest (t, m))"

definition retouch_line :: "(nat \<Rightarrow> int \<times> int) \<Rightarrow> nat \<Rightarrow> table \<times> bool \<Rightarrow> table \<times> bool" where
  "retouch_line pos n s =
     fold (\<lambda>i s. if isnan (rd (fst s) (pos i)) then retouch_scan pos n i [i..<n] s else s)
          [0..<n] s"

definition retouch1D :: "int \<Rightarrow> Memory \<Rightarrow> VectorIndex \<Rightarrow> VectorIndex \<Rightarrow> AppDir \<Rightarrow> bool \<times> Memory" where
  "retouch1D now T vLine vCol Direction =
     (let s = (case Direction of
                 LINES \<Rightarrow> fold (\<lambda>i. retouch_line (\<lambda>k. (vLine ! i, vCol ! k)) (length vCol))
                               [0..<length vLine] (dMemTable T, False)
               | COLS \<Rightarrow> fold (\<lambda>j. retouch_line (\<lambda>k. (vLine ! k, vCol ! j)) (length vLine))
                              [0..<length vCol] (dMemTable T, False)
               | _ \<Rightarrow> (dMemTable T, False));
          T1 = T\<lparr>dMemTable := fst s\<rparr>
      in (True, if snd s \<and> bIsSaved T1 then T1\<lparr>bIsSaved := False, nLastSaved := now\<rparr> else T1))"


subsection \<open>Sorting\<close>




definition isValue :: "Memory \<Rightarrow> int \<Rightarrow> int \<Rightarrow> bool" where
  "isValue T line col = (\<not> isnan (dMemTable T line col))"






















subsection \<open>Import and resampling\<close>

text \<open>
  The members of the old storage layout that \<open>deleteBulk\<close>, \<open>importTable\<close> and
  \<open>resample\<close> use besides \<open>dMemTable\<close> and \<open>bValidData\<close>: the allocated extent
  \<open>nLines\<close>, \<open>nCols\<close>, the number of trailing missing cells of each column, the
  headlines and two caches. Their declarations are in memory.hpp, outside the given
  sources; the arrays are total functions of the index here.
\<close>

record Legacy =
  nLines :: int
  nCols :: int
  nAppendedZeroes :: "int \<Rightarrow> int"
  sHeadLine :: "int \<Rightarrow> string"
  nWrittenHeadlines :: int
  nCalcCols :: int

text \<open>The loops of \<open>deleteBulk\<close> that set the selected cells inside the extent to NaN.\<close>

definition delete_cells :: "Legacy \<Rightarrow> VectorIndex \<Rightarrow> VectorIndex \<Rightarrow> table \<Rightarrow> table" where
  "delete_cells L vLine vCol tbl =
     fold (\<lambda>i t. fold (\<lambda>j t. if j \<ge> nCols L \<or> j < 0 \<or> i \<ge> nLines L \<or> i < 0 then t
                            else t(i := (t i)(j := NaN)))
                       vCol t)
          vLine tbl"

text \<open>
  The loop of \<open>deleteBulk\<close> over the lines \<open>i = nLines - 1, \<dots>, 0\<close> of the column \<open>j\<close>
  that counts the trailing missing cells. \<open>reset\<close> is
  \<^verbatim>\<open>currentcol >= 0 && bHasFirstLine\<close>, and \<open>colName j\<close> stands for
  \<^verbatim>\<open>_lang.get("COMMON_COL") + "_" + toString((int)j + 1)\<close>, whose parts are not in the
  given sources.
\<close>

fun count_zeroes ::
  "(int \<Rightarrow> string) \<Rightarrow> table \<Rightarrow> bool \<Rightarrow> int \<Rightarrow> int list \<Rightarrow> Legacy \<Rightarrow> Legacy" where
  "count_zeroes colName tbl reset j [] L = L"
| "count_zeroes colName tbl reset j (i # rest) L =
     (if \<not> isnan (tbl i j)
      then L\<lparr>nAppendedZeroes := (nAppendedZeroes L)(j := nLines L - i - 1)\<rparr>
      else if i = 0 then
        (let L1 = L\<lparr>nAppendedZeroes := (nAppendedZeroes L)(j := nLines L)\<rparr>
         in count_zeroes colName tbl reset j rest
              (if reset then
                 let L2 = L1\<lparr>sHeadLine := (sHeadLine L1)(j := colName j)\<rparr>
                 in if nWrittenHeadlines L2 > j then L2\<lparr>nWrittenHeadlines := j\<rparr> else L2
               else L1))
      else count_zeroes colName tbl reset j rest L)"

text \<open>
  \<open>deleteBulk\<close>. \<open>now\<close> is \<^verbatim>\<open>time(0)\<close>. The selections are the index sequences that
  the two \<open>VectorIndex\<close> arguments yield after their open ends have been set to
  \<open>nLines - 1\<close> and \<open>nCols - 1\<close>. The last test calls \<open>getLines\<close>, which fills the cache.
\<close>

definition deleteBulk ::
  "(int \<Rightarrow> string) \<Rightarrow> int \<Rightarrow> Memory \<times> Legacy \<Rightarrow> VectorIndex \<Rightarrow> VectorIndex
   \<Rightarrow> Memory \<times> Legacy" where
  "deleteBulk colName now s vLine vCol =
     (case s of (T, L) \<Rightarrow>
        if getCols T = 0 then (T, L)
        else
          let bHasFirstLine = (0 \<in> set vLine);
              T1 = T\<lparr>dMemTable := delete_cells L vLine vCol (dMemTable T)\<rparr>;
              T2 = (if bIsSaved T1 then T1\<lparr>bIsSaved := False, nLastSaved := now\<rparr> else T1);
              L1 = fold (\<lambda>j. count_zeroes colName (dMemTable T2)
                                 (j \<in> set vCol \<and> bHasFirstLine) j (rev [0..nLines L - 1]))
                        (rev [0..nCols L - 1]) L;
              L2 = L1\<lparr>nCalcCols := -1\<rparr>;
              T3 = T2\<lparr>nCalcLines := -1\<rparr>;
              r = getLines T3
          in (if fst r = 0 \<and> getCols (snd r) = 0 then (snd r)\<lparr>bValidData := False\<rparr>
              else snd r,
              L2))"

text \<open>
  Modelled from the spec: \<^verbatim>\<open>NumeRe::Table\<close> (table.hpp) is not part of the given
  sources. The spec describes it as a transfer-object snapshot of a row count, a column
  count, a headline per column and a value per cell.
\<close>

record Table =
  getLines_t :: nat
  getCols_t :: nat
  getValue_t :: "nat \<Rightarrow> nat \<Rightarrow> dbl"
  getHead_t :: "nat \<Rightarrow> string"

text \<open>
  Modelled from the spec: \<open>max()\<close> of the class \<open>VectorIndex\<close>, which is not part of the
  given sources, is the largest index of the selection; for a selection without elements
  the model takes \<open>-1\<close>, no valid index.
\<close>

fun vi_max :: "VectorIndex \<Rightarrow> int" where
  "vi_max [] = -1"
| "vi_max (x # xs) = fold max xs x"

text \<open>
  The two loops of \<open>importTable\<close> that write the cells: \<open>import_cols\<close> is the loop over
  \<open>j\<close> for the line \<open>i\<close> of the snapshot, which goes to the line \<open>line = lines[i]\<close> of the
  table. The signed indices are converted to \<^verbatim>\<open>size_t\<close> at the call of \<open>writeData\<close>.
\<close>

fun import_cols ::
  "int \<Rightarrow> Memory \<Rightarrow> Table \<Rightarrow> VectorIndex \<Rightarrow> nat \<Rightarrow> int \<Rightarrow> nat list \<Rightarrow> error + Memory" where
  "import_cols now T tab cols i line [] = Inr T"
| "import_cols now T tab cols i line (j # js) =
     (case writeData now T (to_size_t line) (to_size_t (cols ! j)) (getValue_t tab i j) of
        Inl e \<Rightarrow> Inl e
      | Inr T1 \<Rightarrow> import_cols now T1 tab cols i line js)"

fun import_lines ::
  "int \<Rightarrow> Memory \<Rightarrow> Table \<Rightarrow> VectorIndex \<Rightarrow> VectorIndex \<Rightarrow> nat list \<Rightarrow> error + Memory" where
  "import_lines now T tab lines cols [] = Inr T"
| "import_lines now T tab lines cols (i # rest) =
     (case import_cols now T tab cols i (lines ! i) [0..<min (getCols_t tab) (length cols)] of
        Inl e \<Rightarrow> Inl e
      | Inr T1 \<Rightarrow> import_lines now T1 tab lines cols rest)"

text \<open>
  \<open>importTable\<close>. \<open>delLines\<close> and \<open>delCols\<close> are the index sequences of the two selections
  as \<open>deleteBulk\<close> sees them, \<open>lines\<close> and \<open>cols\<close> the sequences after the two calls of
  \<open>setOpenEndIndex\<close> in \<open>importTable\<close> (without an open end they are the same). The loops
  stop at the size of the snapshot or of the selection, whichever is smaller.
\<close>

definition importTable ::
  "(int \<Rightarrow> string) \<Rightarrow> int \<Rightarrow> Memory \<times> Legacy \<Rightarrow> Table \<Rightarrow> VectorIndex \<Rightarrow> VectorIndex
   \<Rightarrow> VectorIndex \<Rightarrow> VectorIndex \<Rightarrow> error + (Memory \<times> Legacy)" where
  "importTable colName now s tab delLines delCols lines cols =
     (case deleteBulk colName now s delLines delCols of (T, L) \<Rightarrow>
        case resizeMemory T (to_size_t (vi_max lines)) (to_size_t (vi_max cols)) of
          Inl e \<Rightarrow> Inl e
        | Inr T1 \<Rightarrow>
            (case import_lines now T1 tab lines cols
                    [0..<min (getLines_t tab) (length lines)] of
               Inl e \<Rightarrow> Inl e
             | Inr T2 \<Rightarrow>
                 Inr (T2,
                      fold (\<lambda>j L. if getHead_t tab j \<noteq> []
                                   then L\<lparr>sHeadLine := (sHeadLine L)(cols ! j := getHead_t tab j)\<rparr>
                                   else L)
                           [0..<min (getCols_t tab) (length cols)] L)))"

text \<open>
  \<open>resample\<close> works on \<open>dMemTable\<close> through the class \<open>Resampler\<close>, which is not part of
  the given sources, and touches the column vector in one statement of each call only: the
  call of \<open>resizeMemory\<close> after the resampler has been created (``determine final size
  (only upscale)''). \<open>resample_resize\<close> is that statement, for the application direction
  as it has been adjusted before, the number of samples and the sizes of the two selections
  at that point. The arithmetic is done in \<^verbatim>\<open>size_t\<close>, the type of \<open>size()\<close>.
\<close>

definition resample_resize ::
  "Memory \<Rightarrow> Legacy \<Rightarrow> AppDir \<Rightarrow> nat \<Rightarrow> nat \<Rightarrow> nat \<Rightarrow> error + Memory" where
  "resample_resize T L Direction nSamples vLine_size vCol_size =
     (if Direction = AppDir.ALL \<or> Direction = GRID then
        if nSamples > vLine_size \<or> nSamples > vCol_size
        then resizeMemory T (to_size_t (nLines L + int nSamples - int vLine_size))
                            (to_size_t (nCols L + int nSamples - int vCol_size))
        else Inr T
      else if Direction = COLS then
        if nSamples > vLine_size
        then resizeMemory T (to_size_t (nLines L + int nSamples - int vLine_size))
                            (to_size_t (nCols L - 1))
        else Inr T
      else
        if nSamples > vCol_size
        then resizeMemory T (to_size_t (nLines L - 1))
                            (to_size_t (nCols L + int nSamples - int vCol_size))
        else Inr T)"

subsection \<open>The selection as the spec describes it\<close>

text \<open>
  The valid cells of a selection: the numbers at the in-range coordinates of the selection,
  in row-major order, NaN cells left out. The two standard deviations are written from
  their textbook definitions over that list.
\<close>

definition valid_cells :: "Memory \<Rightarrow> VectorIndex \<Rightarrow> VectorIndex \<Rightarrow> real list" where
  "valid_cells T vLine vCol =
     concat (map (\<lambda>l. concat (map (\<lambda>c.
        if 0 \<le> l \<and> l < n_lines T \<and> 0 \<le> c \<and> c < n_cols T
        then (case dMemTable T l c of Val x \<Rightarrow> [x] | NaN \<Rightarrow> [])
        else []) vCol)) vLine)"

definition mean :: "real list \<Rightarrow> real" where
  "mean xs = sum_list xs / real (length xs)"

definition squared_deviations :: "real list \<Rightarrow> real" where
  "squared_deviations xs = sum_list (map (\<lambda>x. (x - mean xs)\<^sup>2) xs)"

definition population_std :: "real list \<Rightarrow> real" where
  "population_std xs = sqrt (squared_deviations xs / real (length xs))"

definition sample_std :: "real list \<Rightarrow> real" where
  "sample_std xs = sqrt (squared_deviations xs / (real (length xs) - 1))"

definition in_range :: "Memory \<Rightarrow> int \<Rightarrow> int \<Rightarrow> bool" where
  "in_range T l c \<longleftrightarrow> 0 \<le> l \<and> l < n_lines T \<and> 0 \<le> c \<and> c < n_cols T"

definition any_valid_nonzero :: "Memory \<Rightarrow> VectorIndex \<Rightarrow> VectorIndex \<Rightarrow> bool" where
  "any_valid_nonzero T vLine vCol \<longleftrightarrow>
     list_ex (\<lambda>l. list_ex (\<lambda>c. in_range T l c \<and> \<not> isnan (dMemTable T l c)
                                \<and> dMemTable T l c \<noteq> Val 0) vCol) vLine"

definition any_nan_or_nonzero :: "Memory \<Rightarrow> VectorIndex \<Rightarrow> VectorIndex \<Rightarrow> bool" where
  "any_nan_or_nonzero T vLine vCol \<longleftrightarrow>
     list_ex (\<lambda>l. list_ex (\<lambda>c. in_range T l c
                                \<and> (isnan (dMemTable T l c) \<or> dMemTable T l c \<noteq> Val 0)) vCol) vLine"

subsection \<open>Example states\<close>

definition no_table :: "int \<Rightarrow> int \<Rightarrow> dbl" where
  "no_table i j = NaN"

definition empty_table :: Memory where
  "empty_table = Memory_ctor 0 no_table False"

definition example_cells :: "int \<Rightarrow> int \<Rightarrow> dbl" where
  "example_cells i j =
     (if j = 0 then (if i = 0 then Val 1 else if i = 2 then Val 3 else NaN) else NaN)"

text \<open>A table of three lines and two columns whose first column is \<open>[1, NaN, 3]\<close>.\<close>

definition example_table :: Memory where
  "example_table =
     \<lparr>memArray = [Some \<lparr>m_data = [Val 1, NaN, Val 3], m_sHeadLine = ''x''\<rparr>, None],
      nCalcLines = -1, bSaveMutex = False, bIsSaved = True, nLastSaved = 0,
      dMemTable = example_cells, bValidData = True\<rparr>"



text \<open>
  The old storage without extent, and a snapshot of one line and one column with the
  value 5 and the headline \<open>a\<close>.
\<close>

definition no_legacy :: Legacy where
  "no_legacy =
     \<lparr>nLines = 0, nCols = 0, nAppendedZeroes = (\<lambda>j. 0), sHeadLine = (\<lambda>j. []),
      nWrittenHeadlines = 0, nCalcCols = -1\<rparr>"

definition one_cell :: Table where
  "one_cell =
     \<lparr>getLines_t = 1, getCols_t = 1, getValue_t = (\<lambda>i j. Val 5), getHead_t = (\<lambda>j. ''a'')\<rparr>"

definition bind_err :: "error + 'a \<Rightarrow> ('a \<Rightarrow> error + 'b) \<Rightarrow> error + 'b" where
  "bind_err r f = (case r of Inl e \<Rightarrow> Inl e | Inr x \<Rightarrow> f x)"

definition allocate_3_then_1 :: "error + Memory" where
  "allocate_3_then_1 = bind_err (Allocate empty_table 3 False) (\<lambda>T. Allocate T 1 False)"

section \<open>Properties\<close>

lemma getValue_setValue: "getValue (setValue c i v) i = v"
  by (simp add: getValue_def setValue_def nth_append)

text \<open>
  C10: \<open>readMemInterpolated\<close> returns NaN whenever one of the two fractional coordinates is
  NaN, whatever the table holds and whatever \<open>intCast\<close> does. The function returns a value
  only: it has no error result and no successor state.
\<close>

theorem readMemInterpolated_nan_coordinate:
  "isnan dLine \<or> isnan dCol \<Longrightarrow> readMemInterpolated intCast T dLine dCol = NaN"
  by (cases dLine; cases dCol) (simp_all add: readMemInterpolated_def)

theorem readMemInterpolated_nan_coordinate_witness:
  "(isnan NaN \<or> isnan (Val 2)) \<and>
   readMemInterpolated (\<lambda>r. \<lfloor>r\<rfloor>) (Memory_ctor 0 (\<lambda>i j. NaN) False) NaN (Val 2) = NaN"
  using readMemInterpolated_nan_coordinate [of NaN "Val 2" "\<lambda>r. \<lfloor>r\<rfloor>" "Memory_ctor 0 (\<lambda>i j. NaN) False"]
  by simp


subsection \<open>Writing and reading one cell\<close>

lemma Allocate_ok:
  "n \<le> MAX_TABLE_COLS \<Longrightarrow>
   Allocate T n False = Inr (T\<lparr>memArray := vec_resize (memArray T) n None\<rparr>)"
  by (simp add: Allocate_def)

lemma length_vec_resize: "length (vec_resize xs n d) = n"
  by (simp add: vec_resize_def)

lemma writeData_grow:
  assumes "length (memArray T) \<le> nCol" "nCol < MAX_TABLE_COLS" "\<not> (memArray T = [] \<and> isnan v)"
  shows "\<exists>T'. writeData now T nLine nCol v = Inr T'
           \<and> length (memArray T') = nCol + 1
           \<and> memArray T' ! nCol = Some (setValue ValueColumn nLine v)
           \<and> (nCalcLines T = -1 \<longrightarrow> nCalcLines T' = -1)"
proof -
  have m: "(nCol + 1) mod 2 ^ 64 = nCol + 1"
    using assms(2) by (simp add: MAX_TABLE_COLS_def)
  have le: "nCol + 1 \<le> MAX_TABLE_COLS"
    using assms(2) by simp
  have r: "resizeMemory T ((nLine + 1) mod 2 ^ 64) ((nCol + 1) mod 2 ^ 64) =
           Inr (T\<lparr>memArray := vec_resize (memArray T) (nCol + 1) None\<rparr>)"
    unfolding m resizeMemory_def by (rule Allocate_ok [OF le])
  have nth: "vec_resize (memArray T) (nCol + 1) None ! nCol = None"
    using assms(1) by (simp add: vec_resize_def nth_append)
  show ?thesis
    unfolding writeData_def r
    using assms(1,3) nth
    by (simp add: length_vec_resize Let_def)
qed

lemma writeData_inplace:
  assumes "nCol < length (memArray T)"
  shows "\<exists>T'. writeData now T nLine nCol v = Inr T'
           \<and> length (memArray T') = length (memArray T)
           \<and> memArray T' ! nCol =
               Some (setValue (case memArray T ! nCol of None \<Rightarrow> ValueColumn | Some c \<Rightarrow> c) nLine v)"
  using assms by (auto simp: writeData_def Let_def)

lemma writeData_nan_empty: "memArray T = [] \<Longrightarrow> writeData now T nLine nCol NaN = Inr T"
  by (simp add: writeData_def)

lemma readMem_Some:
  "nCol < length (memArray T) \<Longrightarrow> memArray T ! nCol = Some c \<Longrightarrow>
   readMem T nLine nCol = getValue c nLine"
  by (simp add: readMem_def)

lemma readMem_empty: "memArray T = [] \<Longrightarrow> readMem T nLine nCol = NaN"
  by (simp add: readMem_def)

lemma write_then_read:
  assumes "nCol < MAX_TABLE_COLS"
  shows "\<exists>T'. writeData now T nLine nCol v = Inr T' \<and> readMem T' nLine nCol = v"
proof (cases "memArray T = [] \<and> isnan v")
  case True
  then have "v = NaN" by (cases v) simp_all
  with True show ?thesis
    by (simp add: writeData_nan_empty readMem_empty)
next
  case False
  show ?thesis
  proof (cases "nCol < length (memArray T)")
    case True
    from writeData_inplace [OF True, of now nLine v] obtain T' where
      w: "writeData now T nLine nCol v = Inr T'"
      and l: "length (memArray T') = length (memArray T)"
      and c: "memArray T' ! nCol =
               Some (setValue (case memArray T ! nCol of None \<Rightarrow> ValueColumn | Some c \<Rightarrow> c) nLine v)"
      by blast
    from True l have "nCol < length (memArray T')" by simp
    from readMem_Some [OF this c] w show ?thesis
      by (simp add: getValue_setValue)
  next
    case nl: False
    then have le: "length (memArray T) \<le> nCol" by simp
    from writeData_grow [OF le assms False, of now nLine] obtain T' where
      w: "writeData now T nLine nCol v = Inr T'"
      and l: "length (memArray T') = nCol + 1"
      and c: "memArray T' ! nCol = Some (setValue ValueColumn nLine v)"
      by blast
    from l have "nCol < length (memArray T')" by simp
    from readMem_Some [OF this c] w show ?thesis
      by (simp add: getValue_setValue)
  qed
qed

lemma getLines_empty: "memArray T = [] \<Longrightarrow> fst (getLines T) = 0"
  by (simp add: getLines_def)

lemma getLines_single:
  "memArray T = [Some c] \<Longrightarrow> nCalcLines T = -1 \<Longrightarrow> fst (getLines T) = col_size c"
  by (simp add: getLines_def Let_def)

lemma col_size_setValue_fresh: "col_size (setValue ValueColumn nLine v) = nLine + 1"
  by (simp add: col_size_def setValue_def ValueColumn_def)

lemma write_first_cell:
  assumes "memArray T = []" "nCalcLines T = -1" "\<not> isnan v"
  shows "\<exists>T'. writeData now T nLine 0 v = Inr T' \<and> fst (getLines T') = nLine + 1
           \<and> getCols T' = 1 \<and> readMem T' nLine 0 = v"
proof -
  have le: "length (memArray T) \<le> 0" using assms(1) by simp
  have c: "(0::nat) < MAX_TABLE_COLS" by (simp add: MAX_TABLE_COLS_def)
  have ne: "\<not> (memArray T = [] \<and> isnan v)" using assms(3) by simp
  from writeData_grow [OF le c ne, of now nLine] assms(2) obtain T' where
    w: "writeData now T nLine 0 v = Inr T'"
    and l: "length (memArray T') = 0 + 1"
    and n: "memArray T' ! 0 = Some (setValue ValueColumn nLine v)"
    and k: "nCalcLines T' = -1"
    by blast
  from l n have m: "memArray T' = [Some (setValue ValueColumn nLine v)]"
    by (cases "memArray T'") simp_all
  have "fst (getLines T') = nLine + 1"
    using getLines_single [OF m k] by (simp add: col_size_setValue_fresh)
  moreover have "getCols T' = 1" using l by (simp add: getCols_def)
  moreover have "readMem T' nLine 0 = v"
    using readMem_Some [of 0 T', OF _ n] l by (simp add: getValue_setValue)
  ultimately show ?thesis using w by blast
qed

text \<open>
  C1: for a column index below the column cap and any line and value, \<open>writeData\<close>
  succeeds and \<open>readMem\<close> of the same cell then returns the written value; writing NaN into
  a table without columns returns the table as it is, with zero lines and zero columns;
  and \<open>writeData(0,0,5)\<close> on a freshly constructed table gives one line, one column and the
  cell value 5.
\<close>

theorem writeData_then_readMem:
  "(nCol < MAX_TABLE_COLS \<longrightarrow>
      (\<exists>T'. writeData now T nLine nCol v = Inr T' \<and> readMem T' nLine nCol = v))
   \<and> (memArray T = [] \<longrightarrow>
        writeData now T nLine nCol NaN = Inr T \<and> fst (getLines T) = 0 \<and> getCols T = 0)
   \<and> (\<exists>T'. writeData now (Memory_ctor t0 tbl valid) 0 0 (Val 5) = Inr T'
          \<and> fst (getLines T') = 1 \<and> getCols T' = 1 \<and> readMem T' 0 0 = Val 5)"
proof (intro conjI impI)
  assume "nCol < MAX_TABLE_COLS"
  then show "\<exists>T'. writeData now T nLine nCol v = Inr T' \<and> readMem T' nLine nCol = v"
    by (rule write_then_read)
next
  assume "memArray T = []"
  then show "writeData now T nLine nCol NaN = Inr T"
    by (rule writeData_nan_empty)
next
  assume "memArray T = []"
  then show "fst (getLines T) = 0"
    by (rule getLines_empty)
next
  assume "memArray T = []"
  then show "getCols T = 0"
    by (simp add: getCols_def)
next
  have "memArray (Memory_ctor t0 tbl valid) = []" "nCalcLines (Memory_ctor t0 tbl valid) = -1"
    by (simp_all add: Memory_ctor_def)
  from write_first_cell [OF this, of "Val 5" now 0]
  show "\<exists>T'. writeData now (Memory_ctor t0 tbl valid) 0 0 (Val 5) = Inr T'
          \<and> fst (getLines T') = 1 \<and> getCols T' = 1 \<and> readMem T' 0 0 = Val 5"
    by simp
qed

theorem writeData_then_readMem_witness:
  "(7::nat) < MAX_TABLE_COLS \<and> memArray empty_table = []
   \<and> (\<exists>T'. writeData 1 empty_table 2 7 (Val 3) = Inr T' \<and> readMem T' 2 7 = Val 3)
   \<and> writeData 1 empty_table 2 7 NaN = Inr empty_table
   \<and> fst (getLines empty_table) = 0 \<and> getCols empty_table = 0"
  using writeData_then_readMem [of 7 1 empty_table 2 "Val 3" 0 no_table False]
  by (simp add: MAX_TABLE_COLS_def empty_table_def Memory_ctor_def)


subsection \<open>Column allocation and the capacity limits\<close>

lemma Allocate_Inr:
  "Allocate T n s = Inr T' \<Longrightarrow> getCols T' = n \<and> n \<le> MAX_TABLE_COLS"
  by (auto simp: Allocate_def getCols_def Let_def length_vec_resize split: if_splits)

lemma Allocate_too_large: "MAX_TABLE_COLS < n \<Longrightarrow> Allocate T n s = Inl TOO_LARGE_CACHE"
  by (simp add: Allocate_def)

lemma writeData_Inr_cols:
  assumes "getCols T \<le> MAX_TABLE_COLS" "writeData now T nLine nCol v = Inr T'"
  shows "getCols T' \<le> MAX_TABLE_COLS"
proof (cases "memArray T = [] \<and> isnan v")
  case True
  with assms show ?thesis by (simp add: writeData_def)
next
  case False
  show ?thesis
  proof (cases "length (memArray T) \<le> nCol")
    case True
    with False assms(2) obtain T1 where
      a: "Allocate T ((nCol + 1) mod 2 ^ 64) False = Inr T1"
      and b: "getCols T' = getCols T1"
      by (auto simp: writeData_def resizeMemory_def getCols_def Let_def
               split: sum.splits if_splits)
    from Allocate_Inr [OF a] b show ?thesis by simp
  next
    case nl: False
    with False assms(2) have "getCols T' = getCols T"
      by (auto simp: writeData_def getCols_def Let_def split: if_splits)
    with assms(1) show ?thesis by simp
  qed
qed

lemma writeData_too_large:
  assumes "getCols T \<le> MAX_TABLE_COLS" "MAX_TABLE_COLS \<le> nCol" "nCol + 1 < 2 ^ 64"
    "\<not> (memArray T = [] \<and> isnan v)"
  shows "writeData now T nLine nCol v = Inl TOO_LARGE_CACHE"
proof -
  have m: "(nCol + 1) mod 2 ^ 64 = nCol + 1"
    using assms(3) by simp
  have "MAX_TABLE_COLS < nCol + 1" using assms(2) by simp
  then have r: "resizeMemory T ((nLine + 1) mod 2 ^ 64) ((nCol + 1) mod 2 ^ 64) =
                Inl TOO_LARGE_CACHE"
    unfolding m resizeMemory_def by (rule Allocate_too_large)
  have "length (memArray T) \<le> nCol"
    using assms(1,2) by (simp add: getCols_def)
  then show ?thesis
    unfolding writeData_def r using assms(4) by simp
qed

text \<open>
  C3 (behaviour of the code at the claim's example): \<open>Allocate\<close> resizes the column vector
  to exactly the requested count, so \<open>Allocate(3)\<close> gives three columns and a following
  \<open>Allocate(1, false)\<close> leaves one.
\<close>

theorem Allocate_3_then_1_cols:
  "\<not> isl (Allocate empty_table 3 False)
   \<and> getCols (projr (Allocate empty_table 3 False)) = 3
   \<and> \<not> isl allocate_3_then_1
   \<and> getCols (projr allocate_3_then_1) = 1"
  by (simp add: allocate_3_then_1_def bind_err_def Allocate_def MAX_TABLE_COLS_def
        getCols_def vec_resize_def empty_table_def Memory_ctor_def)

text \<open>
  C6 (as stated, refuted): a single \<open>writeData\<close> at line \<open>10^8\<close> of the empty table
  succeeds and leaves a table of \<open>10^8 + 1\<close> lines and one column, more cells than
  \<open>MAX_TABLE_SIZE\<close>.
\<close>

theorem cell_cap_not_enforced:
  "\<not> isl (writeData 0 empty_table 100000000 0 (Val 1))
   \<and> MAX_TABLE_SIZE <
       fst (getLines (projr (writeData 0 empty_table 100000000 0 (Val 1))))
       * getCols (projr (writeData 0 empty_table 100000000 0 (Val 1)))"
proof -
  have "memArray empty_table = []" "nCalcLines empty_table = -1" "\<not> isnan (Val 1)"
    by (simp_all add: empty_table_def Memory_ctor_def)
  from write_first_cell [OF this, of 0 100000000] obtain T' where
    "writeData 0 empty_table 100000000 0 (Val 1) = Inr T'"
    "fst (getLines T') = 100000000 + 1" "getCols T' = 1"
    by blast
  then show ?thesis by (simp add: MAX_TABLE_SIZE_def)
qed

lemma import_cols_cap:
  "getCols T \<le> MAX_TABLE_COLS \<Longrightarrow> import_cols now T tab cols i line js = Inr T' \<Longrightarrow>
   getCols T' \<le> MAX_TABLE_COLS"
proof (induction js arbitrary: T)
  case Nil
  then show ?case by simp
next
  case (Cons j js)
  from Cons.prems(2) obtain T1 where
    w: "writeData now T (to_size_t line) (to_size_t (cols ! j)) (getValue_t tab i j) = Inr T1"
    and r: "import_cols now T1 tab cols i line js = Inr T'"
    by (auto split: sum.splits)
  from writeData_Inr_cols [OF Cons.prems(1) w] have "getCols T1 \<le> MAX_TABLE_COLS" .
  from Cons.IH [OF this r] show ?case .
qed

lemma import_lines_cap:
  "getCols T \<le> MAX_TABLE_COLS \<Longrightarrow> import_lines now T tab lines cols is = Inr T' \<Longrightarrow>
   getCols T' \<le> MAX_TABLE_COLS"
proof (induction "is" arbitrary: T)
  case Nil
  then show ?case by simp
next
  case (Cons i rest)
  from Cons.prems(2) obtain T1 where
    c: "import_cols now T tab cols i (lines ! i) [0..<min (getCols_t tab) (length cols)] = Inr T1"
    and r: "import_lines now T1 tab lines cols rest = Inr T'"
    by (auto split: sum.splits)
  from import_cols_cap [OF Cons.prems(1) c] have "getCols T1 \<le> MAX_TABLE_COLS" .
  from Cons.IH [OF this r] show ?case .
qed

lemma importTable_cap:
  assumes "importTable colName now s tab delLines delCols lines cols = Inr (T', L')"
  shows "getCols T' \<le> MAX_TABLE_COLS"
proof -
  obtain T L where d: "deleteBulk colName now s delLines delCols = (T, L)"
    by (cases "deleteBulk colName now s delLines delCols")
  from assms obtain T1 where
    a: "Allocate T (to_size_t (vi_max cols)) False = Inr T1"
    and i: "import_lines now T1 tab lines cols [0..<min (getLines_t tab) (length lines)] = Inr T'"
    unfolding importTable_def d resizeMemory_def by (auto split: sum.splits)
  from Allocate_Inr [OF a] have "getCols T1 \<le> MAX_TABLE_COLS" by simp
  from import_lines_cap [OF this i] show ?thesis .
qed

lemma importTable_too_large:
  assumes "MAX_TABLE_COLS < to_size_t (vi_max cols)"
  shows "importTable colName now s tab delLines delCols lines cols = Inl TOO_LARGE_CACHE"
proof -
  obtain T L where d: "deleteBulk colName now s delLines delCols = (T, L)"
    by (cases "deleteBulk colName now s delLines delCols")
  show ?thesis
    unfolding importTable_def d resizeMemory_def
    by (simp add: Allocate_too_large [OF assms])
qed

lemma resample_resize_cap:
  assumes "getCols T \<le> MAX_TABLE_COLS"
    "resample_resize T L Direction nSamples vLine_size vCol_size = Inr T'"
  shows "getCols T' \<le> MAX_TABLE_COLS"
  using assms Allocate_Inr [of T _ False T']
  by (auto simp: resample_resize_def resizeMemory_def split: if_splits)

lemma resample_resize_too_large:
  assumes "Direction \<noteq> COLS" "vCol_size < nSamples"
    "MAX_TABLE_COLS < to_size_t (nCols L + int nSamples - int vCol_size)"
  shows "resample_resize T L Direction nSamples vLine_size vCol_size = Inl TOO_LARGE_CACHE"
  using assms(1,2) Allocate_too_large [OF assms(3)]
  by (simp add: resample_resize_def resizeMemory_def)

lemma empty_table_fields:
  "memArray empty_table = []" "nCalcLines empty_table = -1" "getCols empty_table = 0"
  by (simp_all add: empty_table_def Memory_ctor_def getCols_def)

lemma import_one_cell:
  "\<exists>Ti Li. importTable (\<lambda>j. []) 0 (empty_table, no_legacy) one_cell [0] [0] [0] [0]
            = Inr (Ti, Li)"
proof -
  have d: "deleteBulk (\<lambda>j. []) 0 (empty_table, no_legacy) [0] [0] = (empty_table, no_legacy)"
    by (simp add: deleteBulk_def empty_table_fields)
  have a: "resizeMemory empty_table (to_size_t (vi_max [0])) (to_size_t (vi_max [0]))
           = Inr empty_table"
    by (simp add: resizeMemory_def to_size_t_def Allocate_def vec_resize_def empty_table_fields)
  from write_first_cell [of empty_table "Val 5" 0 0] obtain Tw where
    w: "writeData 0 empty_table 0 0 (Val 5) = Inr Tw"
    by (auto simp: empty_table_fields)
  have i: "import_lines 0 empty_table one_cell [0] [0] [0..<min (getLines_t one_cell) (length [0::int])]
           = Inr Tw"
    by (simp add: one_cell_def to_size_t_def w)
  show ?thesis
    unfolding importTable_def d by (simp only: prod.case a sum.case i) blast
qed

text \<open>
  C6 (amended): the column count never exceeds \<open>MAX_TABLE_COLS = 10000\<close>, and an operation
  that asks for more columns fails with \<open>TOO_LARGE_CACHE\<close>.

  \<^item> \<open>Allocate\<close> of more than 10000 columns fails with \<open>TOO_LARGE_CACHE\<close>, and a successful
    \<open>Allocate\<close> leaves at most 10000 columns.
  \<^item> On a table within the cap, \<open>writeData\<close> at a column index \<open>c\<close> with \<open>10000 \<le> c\<close> and
    \<open>c + 1 < 2^64\<close> (every \<^verbatim>\<open>size_t\<close> but the last, and not the ignored NaN write into a
    table without columns) fails with \<open>TOO_LARGE_CACHE\<close>, and a successful \<open>writeData\<close>
    leaves at most 10000 columns.
  \<^item> \<open>importTable\<close> with a column selection whose largest index, as a \<^verbatim>\<open>size_t\<close>, is
    above 10000 fails with \<open>TOO_LARGE_CACHE\<close>, and a successful \<open>importTable\<close> leaves at
    most 10000 columns.
  \<^item> The resize of \<open>resample\<close> in a direction other than \<open>COLS\<close>, with more samples than
    selected columns, fails with \<open>TOO_LARGE_CACHE\<close> when the member \<open>nCols\<close> plus the
    samples minus the selected columns, as a \<^verbatim>\<open>size_t\<close>, is above 10000; on a table
    within the cap a successful resize of \<open>resample\<close> leaves at most 10000 columns.

  Nothing is promised about the number of cells, and nothing about \<open>writeData\<close> at the
  column index \<open>2^64 - 1\<close>, whose successor wraps to 0.
\<close>

theorem column_cap_enforced:
  "(MAX_TABLE_COLS < n \<longrightarrow> Allocate T n s = Inl TOO_LARGE_CACHE)
   \<and> (Allocate T n s = Inr Ta \<longrightarrow> getCols Ta \<le> MAX_TABLE_COLS)
   \<and> (getCols T \<le> MAX_TABLE_COLS \<and> MAX_TABLE_COLS \<le> nCol \<and> nCol + 1 < 2 ^ 64
        \<and> \<not> (memArray T = [] \<and> isnan v) \<longrightarrow>
        writeData now T nLine nCol v = Inl TOO_LARGE_CACHE)
   \<and> (getCols T \<le> MAX_TABLE_COLS \<and> writeData now T nLine nCol v = Inr Tw \<longrightarrow>
        getCols Tw \<le> MAX_TABLE_COLS)
   \<and> (MAX_TABLE_COLS < to_size_t (vi_max cols) \<longrightarrow>
        importTable colName now (T, L) tab delLines delCols lines cols = Inl TOO_LARGE_CACHE)
   \<and> (importTable colName now (T, L) tab delLines delCols lines cols = Inr (Ti, Li) \<longrightarrow>
        getCols Ti \<le> MAX_TABLE_COLS)
   \<and> (Direction \<noteq> COLS \<and> vCol_size < nSamples
        \<and> MAX_TABLE_COLS < to_size_t (nCols L + int nSamples - int vCol_size) \<longrightarrow>
        resample_resize T L Direction nSamples vLine_size vCol_size = Inl TOO_LARGE_CACHE)
   \<and> (getCols T \<le> MAX_TABLE_COLS
        \<and> resample_resize T L Direction nSamples vLine_size vCol_size = Inr Tr \<longrightarrow>
        getCols Tr \<le> MAX_TABLE_COLS)"
  using Allocate_too_large [of n T s] Allocate_Inr [of T n s Ta]
    writeData_too_large [of T nCol v now nLine] writeData_Inr_cols [of T now nLine nCol v Tw]
    importTable_too_large [of cols colName now "(T, L)" tab delLines delCols lines]
    importTable_cap [of colName now "(T, L)" tab delLines delCols lines cols Ti Li]
    resample_resize_too_large [of Direction vCol_size nSamples L T vLine_size]
    resample_resize_cap [of T L Direction nSamples vLine_size vCol_size Tr]
  by blast

theorem column_cap_enforced_witness:
  "getCols empty_table \<le> MAX_TABLE_COLS
   \<and> Allocate empty_table 10001 False = Inl TOO_LARGE_CACHE
   \<and> writeData 0 empty_table 0 10000 (Val 1) = Inl TOO_LARGE_CACHE
   \<and> importTable (\<lambda>j. []) 0 (empty_table, no_legacy) one_cell [0] [10001] [0] [10001]
       = Inl TOO_LARGE_CACHE
   \<and> resample_resize empty_table no_legacy LINES 10001 0 0 = Inl TOO_LARGE_CACHE
   \<and> (\<exists>Ta. Allocate empty_table 3 False = Inr Ta \<and> getCols Ta \<le> MAX_TABLE_COLS)
   \<and> (\<exists>Tw. writeData 0 empty_table 0 0 (Val 5) = Inr Tw \<and> getCols Tw \<le> MAX_TABLE_COLS)
   \<and> (\<exists>Ti Li. importTable (\<lambda>j. []) 0 (empty_table, no_legacy) one_cell [0] [0] [0] [0]
                = Inr (Ti, Li) \<and> getCols Ti \<le> MAX_TABLE_COLS)
   \<and> (\<exists>Tr. resample_resize empty_table no_legacy LINES 2 0 1 = Inr Tr
          \<and> getCols Tr \<le> MAX_TABLE_COLS)"
proof -
  have g: "getCols empty_table \<le> MAX_TABLE_COLS"
    by (simp add: empty_table_fields)
  note fail = column_cap_enforced [where T = empty_table and n = 10001 and s = False
      and nCol = 10000 and v = "Val 1" and now = 0 and nLine = 0 and cols = "[10001]"
      and colName = "\<lambda>j. []" and L = no_legacy and tab = one_cell and delLines = "[0]"
      and delCols = "[10001]" and lines = "[0]" and Direction = LINES and nSamples = 10001
      and vCol_size = 0 and vLine_size = 0]
  have f: "Allocate empty_table 10001 False = Inl TOO_LARGE_CACHE"
    "writeData 0 empty_table 0 10000 (Val 1) = Inl TOO_LARGE_CACHE"
    "importTable (\<lambda>j. []) 0 (empty_table, no_legacy) one_cell [0] [10001] [0] [10001]
       = Inl TOO_LARGE_CACHE"
    "resample_resize empty_table no_legacy LINES 10001 0 0 = Inl TOO_LARGE_CACHE"
    using fail g
    by (simp_all add: MAX_TABLE_COLS_def to_size_t_def no_legacy_def empty_table_fields)
  obtain Ta where a: "Allocate empty_table 3 False = Inr Ta"
    by (simp add: Allocate_def MAX_TABLE_COLS_def)
  from write_first_cell [of empty_table "Val 5" 0 0] obtain Tw where
    w: "writeData 0 empty_table 0 0 (Val 5) = Inr Tw"
    by (auto simp: empty_table_fields)
  from import_one_cell obtain Ti Li where
    i: "importTable (\<lambda>j. []) 0 (empty_table, no_legacy) one_cell [0] [0] [0] [0] = Inr (Ti, Li)"
    by blast
  obtain Tr where r: "resample_resize empty_table no_legacy LINES 2 0 1 = Inr Tr"
    by (simp add: resample_resize_def resizeMemory_def Allocate_def MAX_TABLE_COLS_def
          to_size_t_def no_legacy_def)
  note ok = column_cap_enforced [where T = empty_table and n = 3 and s = False and Ta = Ta
      and nCol = 0 and v = "Val 5" and now = 0 and nLine = 0 and Tw = Tw and cols = "[0]"
      and colName = "\<lambda>j. []" and L = no_legacy and tab = one_cell and delLines = "[0]"
      and delCols = "[0]" and lines = "[0]" and Ti = Ti and Li = Li and Direction = LINES
      and nSamples = 2 and vCol_size = 1 and vLine_size = 0 and Tr = Tr]
  have k: "getCols Ta \<le> MAX_TABLE_COLS" "getCols Tw \<le> MAX_TABLE_COLS"
    "getCols Ti \<le> MAX_TABLE_COLS" "getCols Tr \<le> MAX_TABLE_COLS"
    using ok g a w i r by blast+
  from g f a w i r k show ?thesis by blast
qed

subsection \<open>Block reads\<close>

lemma readMem_cols_eq:
  "readMem_cols T l vCol acc =
   acc @ map (\<lambda>c. if c < 0 then NaN else readMem T (to_size_t l) (nat c)) vCol"
  by (induction vCol arbitrary: acc) (auto simp: readMem_def split: option.splits)

lemma readMem_lines_eq:
  "readMem_lines T vLine vCol acc =
   acc @ concat (map (\<lambda>l. map (\<lambda>c. if c < 0 then NaN else readMem T (to_size_t l) (nat c)) vCol)
                     vLine)"
  by (induction vLine arbitrary: acc) (simp_all add: readMem_cols_eq)

lemma length_concat_rows: "length (concat (map (\<lambda>l. map (f l) ys) xs)) = length xs * length ys"
  by (induction xs) simp_all

text \<open>
  C7 (as stated, refuted): on a table without columns a one-line selection of two columns is
  not a true 2-D block, yet the block read returns the single NaN and not two values.
\<close>

theorem readMem_vec_empty_table:
  "\<not> (1 < length [0::int] \<and> 1 < length [0::int, 1])
   \<and> readMem_vec empty_table [0] [0, 1] = [NaN]
   \<and> length (readMem_vec empty_table [0] [0, 1]) \<noteq> length [0::int] * length [0::int, 1]"
  by (simp add: readMem_vec_def empty_table_def Memory_ctor_def)

text \<open>
  C7 (amended): the block read returns the one-element sequence NaN when both selections
  have more than one element or when the table has no columns; in every other case it
  returns the row-major sequence of the single-cell reads of the selection (NaN for a
  negative column index, and \<open>readMem\<close> gives NaN for any column or line out of range and
  any column that is not materialised), of length \<open>lines.size() * cols.size()\<close>.
\<close>

theorem readMem_vec_flattening:
  "readMem_vec T vLine vCol =
     (if (1 < length vLine \<and> 1 < length vCol) \<or> memArray T = [] then [NaN]
      else concat (map (\<lambda>l. map (\<lambda>c. if c < 0 then NaN
                                       else readMem T (to_size_t l) (nat c)) vCol) vLine))
   \<and> (\<not> ((1 < length vLine \<and> 1 < length vCol) \<or> memArray T = []) \<longrightarrow>
        length (readMem_vec T vLine vCol) = length vLine * length vCol)"
  by (simp add: readMem_vec_def readMem_lines_eq length_concat_rows)


theorem readMem_vec_flattening_witness:
  "readMem_vec example_table [0, 1, 2, 5] [0] = [Val 1, NaN, Val 3, NaN]
   \<and> length (readMem_vec example_table [0, 1, 2, 5] [0]) = 4
   \<and> readMem_vec example_table [2] [0, 1, -1, 7] = [Val 3, NaN, NaN, NaN]
   \<and> readMem_vec example_table [0, 1] [0, 1] = [NaN]"
  using readMem_vec_flattening [of example_table "[0, 1, 2, 5]" "[0]"]
    readMem_vec_flattening [of example_table "[2]" "[0, 1, -1, 7]"]
    readMem_vec_flattening [of example_table "[0, 1]" "[0, 1]"]
  by (simp add: readMem_def getValue_def to_size_t_def example_table_def)

subsection \<open>Statistics\<close>

lemma getLines_again:
  "fst (getLines T) < 2 ^ 64 \<Longrightarrow> fst (getLines (snd (getLines T))) = fst (getLines T)"
  by (auto simp: getLines_def Let_def to_size_t_def)

lemma fold_cols_valid:
  assumes "\<And>l c a. body l c a =
             (if in_range T l c then (case dMemTable T l c of Val x \<Rightarrow> f x a | NaN \<Rightarrow> a) else a)"
  shows "fold (body l) vCol a =
         fold f (concat (map (\<lambda>c. if 0 \<le> l \<and> l < n_lines T \<and> 0 \<le> c \<and> c < n_cols T
                                    then (case dMemTable T l c of Val x \<Rightarrow> [x] | NaN \<Rightarrow> [])
                                    else []) vCol)) a"
  by (induction vCol arbitrary: a) (simp_all add: assms in_range_def split: dbl.splits)

lemma foreach_cell_valid:
  assumes "\<And>l c a. body l c a =
             (if in_range T l c then (case dMemTable T l c of Val x \<Rightarrow> f x a | NaN \<Rightarrow> a) else a)"
  shows "foreach_cell body vLine vCol a = fold f (valid_cells T vLine vCol) a"
  unfolding foreach_cell_def valid_cells_def
  by (induction vLine arbitrary: a) (simp_all add: fold_cols_valid [of body T f, OF assms])

lemma fold_add_Val: "fold (\<lambda>x a. dadd a (Val (g x))) xs (Val s) = Val (s + sum_list (map g xs))"
  by (induction xs arbitrary: s) (simp_all add: add.assoc)

lemma sum_func_valid:
  "bValidData T \<Longrightarrow> sum_func T vLine vCol = Val (sum_list (valid_cells T vLine vCol))"
proof -
  assume v: "bValidData T"
  have "foreach_cell
          (\<lambda>l c dSum. if l < 0 \<or> l \<ge> n_lines T \<or> c < 0 \<or> c \<ge> n_cols T then dSum
                       else if isnan (dMemTable T l c) then dSum
                       else dadd dSum (dMemTable T l c)) vLine vCol (Val 0)
        = fold (\<lambda>x a. dadd a (Val x)) (valid_cells T vLine vCol) (Val 0)"
    by (rule foreach_cell_valid) (auto simp: in_range_def split: dbl.splits)
  then show ?thesis
    using v fold_add_Val [of "\<lambda>x. x" _ 0] by (simp add: sum_func_def Let_def)
qed

lemma count_cols:
  "fold (\<lambda>c (n::int). if l < 0 \<or> l \<ge> n_lines T \<or> c < 0 \<or> c \<ge> n_cols T then n + 1
                        else if isnan (dMemTable T l c) then n + 1 else n) vCol n0
   + int (length (concat (map (\<lambda>c. if 0 \<le> l \<and> l < n_lines T \<and> 0 \<le> c \<and> c < n_cols T
                                    then (case dMemTable T l c of Val x \<Rightarrow> [x] | NaN \<Rightarrow> [])
                                    else []) vCol)))
   = n0 + int (length vCol)"
  by (induction vCol arbitrary: n0) (auto split: dbl.splits)

lemma count_lines:
  "foreach_cell (\<lambda>l c (n::int). if l < 0 \<or> l \<ge> n_lines T \<or> c < 0 \<or> c \<ge> n_cols T then n + 1
                        else if isnan (dMemTable T l c) then n + 1 else n) vLine vCol n0
   + int (length (valid_cells T vLine vCol))
   = n0 + int (length vLine * length vCol)"
proof (induction vLine arbitrary: n0)
  case Nil
  show ?case by (simp add: foreach_cell_def valid_cells_def)
next
  case (Cons l ls)
  from Cons [of "fold (\<lambda>c (n::int). if l < 0 \<or> l \<ge> n_lines T \<or> c < 0 \<or> c \<ge> n_cols T then n + 1
                        else if isnan (dMemTable T l c) then n + 1 else n) vCol n0"]
    count_cols [of l T vCol n0]
  show ?case
    by (simp add: foreach_cell_def valid_cells_def algebra_simps)
qed

lemma num_valid:
  assumes "bValidData T"
  shows "num T vLine vCol = Val (real (length (valid_cells T vLine vCol)))"
proof -
  define k where "k = foreach_cell (\<lambda>l c (n::int). if l < 0 \<or> l \<ge> n_lines T \<or> c < 0 \<or> c \<ge> n_cols T then n + 1
                        else if isnan (dMemTable T l c) then n + 1 else n) vLine vCol 0"
  have "k + int (length (valid_cells T vLine vCol)) = int (length vLine * length vCol)"
    using count_lines [of T vLine vCol 0] by (simp add: k_def)
  then have "int (length vLine * length vCol) - k = int (length (valid_cells T vLine vCol))"
    by linarith
  then have "real_of_int (int (length vLine * length vCol) - k) = real (length (valid_cells T vLine vCol))"
    by simp
  then show ?thesis
    using assms unfolding num_def Let_def k_def by simp
qed

lemma avg_valid:
  assumes "bValidData T"
  shows "avg T vLine vCol =
         (if valid_cells T vLine vCol = [] then NaN else Val (mean (valid_cells T vLine vCol)))"
  using assms by (simp add: avg_def sum_func_valid num_valid mean_def)

lemma fold_sq_Val:
  "fold (\<lambda>x a. dadd a (dmul (dsub (Val m) (Val x)) (dsub (Val m) (Val x)))) xs (Val s)
   = Val (s + sum_list (map (\<lambda>x. (x - m)\<^sup>2) xs))"
  by (induction xs arbitrary: s) (simp_all add: power2_eq_square algebra_simps)

lemma dStd_valid:
  "foreach_cell
     (\<lambda>l c dStd. if l < 0 \<or> l \<ge> n_lines T \<or> c < 0 \<or> c \<ge> n_cols T then dStd
                  else if isnan (dMemTable T l c) then dStd
                  else dadd dStd (dmul (dsub dAvg (dMemTable T l c)) (dsub dAvg (dMemTable T l c))))
     vLine vCol a
   = fold (\<lambda>x a. dadd a (dmul (dsub dAvg (Val x)) (dsub dAvg (Val x)))) (valid_cells T vLine vCol) a"
  by (rule foreach_cell_valid) (auto simp: in_range_def split: dbl.splits)

lemma squared_deviations_nonneg: "0 \<le> squared_deviations xs"
  unfolding squared_deviations_def by (rule sum_list_nonneg) auto

lemma std_closed_form:
  assumes "bValidData T"
  shows "std T vLine vCol =
         (if length (valid_cells T vLine vCol) = 0 then Val 0
          else if length (valid_cells T vLine vCol) = 1 then NaN
          else Val (sample_std (valid_cells T vLine vCol)))"
proof -
  let ?xs = "valid_cells T vLine vCol"
  have s: "std T vLine vCol =
           dsqrt (ddiv (fold (\<lambda>x a. dadd a (dmul (dsub (avg T vLine vCol) (Val x))
                                                  (dsub (avg T vLine vCol) (Val x)))) ?xs (Val 0))
                       (dsub (Val (real (length ?xs))) (Val 1)))"
    using assms by (simp add: std_def Let_def dStd_valid num_valid)
  show ?thesis
  proof (cases "?xs = []")
    case True
    then show ?thesis by (simp add: s)
  next
    case False
    then have a: "avg T vLine vCol = Val (mean ?xs)"
      using assms by (simp add: avg_valid)
    have f: "fold (\<lambda>x a. dadd a (dmul (dsub (Val (mean ?xs)) (Val x)) (dsub (Val (mean ?xs)) (Val x))))
                  ?xs (Val 0) = Val (squared_deviations ?xs)"
      unfolding squared_deviations_def fold_sq_Val by simp
    have s2: "std T vLine vCol =
              dsqrt (ddiv (Val (squared_deviations ?xs)) (dsub (Val (real (length ?xs))) (Val 1)))"
      unfolding s a f by (rule refl)
    show ?thesis
    proof (cases "length ?xs = 1")
      case True
      then show ?thesis by (simp add: s2)
    next
      case ne1: False
      with False have "2 \<le> length ?xs"
        by (cases ?xs) (auto simp: Suc_le_eq)
      then have "0 < real (length ?xs) - 1" by simp
      moreover from this squared_deviations_nonneg [of ?xs]
      have "\<not> squared_deviations ?xs / (real (length ?xs) - 1) < 0"
        by (simp add: not_less)
      ultimately show ?thesis
        using False ne1 by (simp add: s2 sample_std_def)
    qed
  qed
qed

lemma ex_lines: "n_lines example_table = 3"
  by (simp add: n_lines_def getLines_def example_table_def col_size_def Let_def)

lemma ex_cols: "n_cols example_table = 2"
  by (simp add: n_cols_def getCols_def example_table_def)

lemma ex_valid: "bValidData example_table"
  by (simp add: example_table_def)

lemma ex_cells: "dMemTable example_table = example_cells"
  by (simp add: example_table_def)

lemma ex_valid_cells: "valid_cells example_table [0, 1, 2] [0] = [1, 3]"
  by (simp add: valid_cells_def ex_lines ex_cols ex_cells example_cells_def)

lemma ex_std: "std example_table [0, 1, 2] [0] = Val (sqrt 2)"
  by (simp add: std_closed_form ex_valid ex_valid_cells sample_std_def squared_deviations_def mean_def)

lemma ex_pop: "population_std [1, 3] = 1"
  by (simp add: population_std_def squared_deviations_def mean_def)

text \<open>
  C4 (as stated, refuted): over the column \<open>[1, NaN, 3]\<close> the valid cells are 1 and 3, their
  population standard deviation is 1, and \<open>std\<close> returns the square root of 2.
\<close>

theorem std_not_population:
  "bValidData example_table
   \<and> std example_table [0, 1, 2] [0] \<noteq> Val (population_std (valid_cells example_table [0, 1, 2] [0]))"
  by (simp add: ex_valid ex_std ex_valid_cells ex_pop)

text \<open>
  C4 (amended): on a table that holds valid data (\<open>bValidData\<close>), \<open>std\<close> returns the
  sample standard deviation of the valid cells of the selection: the square root of the sum
  of squared deviations from the mean divided by \<open>N - 1\<close>, where \<open>N\<close> is the number of
  valid cells, which is what \<open>num\<close> returns for the same selection. With one valid cell the
  quotient is \<open>0 / 0\<close> and the result NaN; with none the result is 0. On a table without
  valid data \<open>std\<close> returns NaN and \<open>num\<close> returns 0.
\<close>

theorem std_sample_deviation:
  "num T vLine vCol =
     (if bValidData T then Val (real (length (valid_cells T vLine vCol))) else Val 0)
   \<and> std T vLine vCol =
       (if \<not> bValidData T then NaN
        else if length (valid_cells T vLine vCol) = 0 then Val 0
        else if length (valid_cells T vLine vCol) = 1 then NaN
        else Val (sample_std (valid_cells T vLine vCol)))"
proof (cases "bValidData T")
  case True
  then show ?thesis by (simp add: num_valid std_closed_form)
next
  case False
  then show ?thesis by (simp add: num_def std_def)
qed

theorem std_sample_deviation_witness:
  "bValidData example_table
   \<and> num example_table [0, 1, 2] [0] = Val 2
   \<and> std example_table [0, 1, 2] [0] = Val (sqrt 2)
   \<and> std example_table [0] [0] = NaN
   \<and> std example_table [1] [0] = Val 0
   \<and> \<not> bValidData empty_table
   \<and> num empty_table [0] [0] = Val 0
   \<and> std empty_table [0] [0] = NaN"
proof -
  have a: "valid_cells example_table [0] [0] = [1]"
    by (simp add: valid_cells_def ex_lines ex_cols ex_cells example_cells_def)
  have b: "valid_cells example_table [1] [0] = []"
    by (simp add: valid_cells_def ex_lines ex_cols ex_cells example_cells_def)
  have e: "\<not> bValidData empty_table"
    by (simp add: empty_table_def Memory_ctor_def)
  show ?thesis
    using std_sample_deviation [of example_table "[0, 1, 2]" "[0]"]
      std_sample_deviation [of example_table "[0]" "[0]"]
      std_sample_deviation [of example_table "[1]" "[0]"]
      std_sample_deviation [of empty_table "[0]" "[0]"]
    by (simp add: ex_valid ex_valid_cells a b e sample_std_def squared_deviations_def mean_def)
qed


subsection \<open>The OR reduction\<close>

lemma dne0_iff: "isnan x \<or> dne0 x \<longleftrightarrow> isnan x \<or> x \<noteq> Val 0"
  by (cases x) simp_all

lemma or_func_cols_eq:
  "or_func_cols T (n_lines T) (n_cols T) l vCol =
   (if list_ex (\<lambda>c. in_range T l c \<and> (isnan (dMemTable T l c) \<or> dMemTable T l c \<noteq> Val 0)) vCol
    then Some (Val 1) else None)"
  by (induction vCol) (auto simp: in_range_def dne0_iff)

lemma or_func_lines_eq:
  "or_func_lines T (n_lines T) (n_cols T) vLine vCol =
   (if any_nan_or_nonzero T vLine vCol then Some (Val 1) else None)"
  unfolding any_nan_or_nonzero_def
  by (induction vLine) (simp_all add: or_func_cols_eq)

lemma or_func_eq:
  "or_func T vLine vCol = (if bValidData T \<and> any_nan_or_nonzero T vLine vCol then Val 1 else Val 0)"
  by (simp add: or_func_def or_func_lines_eq)

text \<open>
  C5 (as stated, refuted): the selection of the single cell in line 1 of the column
  \<open>[1, NaN, 3]\<close> holds no valid nonzero cell, and \<open>or_func\<close> returns 1.
\<close>

theorem or_func_counts_nan:
  "or_func example_table [1] [0] = Val 1 \<and> \<not> any_valid_nonzero example_table [1] [0]"
  by (simp add: or_func_eq any_nan_or_nonzero_def any_valid_nonzero_def in_range_def
        ex_lines ex_cols ex_valid ex_cells example_cells_def)

text \<open>
  C5 (amended): \<open>or_func\<close> returns 1 if the table holds valid data and at least one
  in-range cell of the selection is NaN or nonzero, and 0 otherwise: a NaN cell counts as
  true, out-of-range coordinates are skipped.
\<close>

theorem or_func_nan_or_nonzero:
  "or_func T vLine vCol =
     (if bValidData T \<and> any_nan_or_nonzero T vLine vCol then Val 1 else Val 0)"
  by (rule or_func_eq)

theorem or_func_nan_or_nonzero_witness:
  "bValidData example_table
   \<and> any_nan_or_nonzero example_table [0, 1] [0] \<and> or_func example_table [0, 1] [0] = Val 1
   \<and> \<not> any_nan_or_nonzero example_table [3, 4] [0, 5] \<and> or_func example_table [3, 4] [0, 5] = Val 0"
  using or_func_nan_or_nonzero [of example_table "[0, 1]" "[0]"]
    or_func_nan_or_nonzero [of example_table "[3, 4]" "[0, 5]"]
  by (simp add: any_nan_or_nonzero_def in_range_def
        ex_lines ex_cols ex_valid ex_cells example_cells_def)

subsection \<open>Median and quantile\<close>

lemma floor_half: "\<lfloor>real k - 1 / 2\<rfloor> = int k - 1"
  by (rule floor_unique) simp_all 

lemma quantile_half_is_median:
  assumes "0 < n"
  shows "gsl_stats_quantile_from_sorted_data xs n (1 / 2) = gsl_stats_median_from_sorted_data xs n"
proof (cases "even n")
  case True
  then obtain k where k: "n = 2 * k" by (elim evenE)
  with assms have k0: "0 < k" by simp
  have idx: "1 / 2 * real (n - 1) = real k - 1 / 2"
    using k k0 by (simp add: field_simps)
  have fl: "nat \<lfloor>real k - 1 / 2\<rfloor> = k - 1"
    using k0 by (simp add: floor_half)
  have d: "real k - 1 / 2 - real (k - 1) = 1 / 2"
    using k0 by simp
  have l: "(n - 1) div 2 = k - 1" "n div 2 = k"
    using k k0 by auto
  have ne: "k - 1 \<noteq> n - 1" "k - 1 \<noteq> k" "Suc (k - 1) = k"
    using k k0 by auto
  show ?thesis
    using assms ne
    unfolding gsl_stats_quantile_from_sorted_data_def gsl_stats_median_from_sorted_data_def
      Let_def idx fl d l
    by (simp add: field_simps)
next
  case False
  then obtain k where k: "n = 2 * k + 1" by (elim oddE)
  have idx: "1 / 2 * real (n - 1) = real k"
    using k by simp
  have l: "(n - 1) div 2 = k" "n div 2 = k"
    using k by auto
  show ?thesis
    using assms k
    unfolding gsl_stats_quantile_from_sorted_data_def gsl_stats_median_from_sorted_data_def
      Let_def idx l
    by simp
qed

lemma collect_vData_valid: "collect_vData T vLine vCol = valid_cells T vLine vCol"
proof -
  have "foreach_cell
           (\<lambda>l c vData.
              if l < 0 \<or> l \<ge> n_lines T \<or> c < 0 \<or> c \<ge> n_cols T \<or> isnan (dMemTable T l c) then vData
              else case dMemTable T l c of Val x \<Rightarrow> vData @ [x] | NaN \<Rightarrow> vData)
           vLine vCol [] = fold (\<lambda>x a. a @ [x]) (valid_cells T vLine vCol) []"
    by (rule foreach_cell_valid) (auto simp: in_range_def split: dbl.splits)
  moreover have "fold (\<lambda>x a. a @ [x]) xs a = a @ xs" for xs a :: "real list"
    by (induction xs arbitrary: a) simp_all
  ultimately show ?thesis
    by (simp add: collect_vData_def Let_def)
qed

lemma pct_half_med: "pct T vLine vCol (1 / 2) = med T vLine vCol"
  by (simp add: pct_def med_def Let_def qSortDouble_def quantile_half_is_median)

text \<open>
  C8: for every selection with at least one valid value, \<open>pct\<close> with \<open>p = 0.5\<close> returns
  what \<open>med\<close> returns for the same selection; on a table with valid data that common
  result is a number, the median of the sorted valid cells.
\<close>

theorem pct_half_equals_med:
  "valid_cells T vLine vCol \<noteq> [] \<Longrightarrow>
     pct T vLine vCol (1 / 2) = med T vLine vCol
   \<and> (bValidData T \<longrightarrow>
        med T vLine vCol =
          Val (gsl_stats_median_from_sorted_data (sort (valid_cells T vLine vCol))
                 (length (valid_cells T vLine vCol))))"
  by (simp add: pct_half_med) (simp add: med_def collect_vData_valid qSortDouble_def Let_def)

theorem pct_half_equals_med_witness:
  "valid_cells example_table [0, 1, 2] [0] \<noteq> []
   \<and> pct example_table [0, 1, 2] [0] (1 / 2) = Val 2
   \<and> med example_table [0, 1, 2] [0] = Val 2"
  using pct_half_equals_med [of example_table "[0, 1, 2]" "[0]"]
  by (simp add: ex_valid ex_valid_cells gsl_stats_median_from_sorted_data_def)


subsection \<open>Retouching\<close>

text \<open>
  C2 (behaviour of the code at the claim's example): retouching the column \<open>[1, NaN, 3]\<close>
  over its full range along the column gives \<open>[1, 3, 3]\<close>. The interpolation divides the
  difference of the two neighbours by the length of the NaN run, \<open>_i - i\<close>, and not by
  the distance of the neighbours, so the last cell of a run receives the value of the right
  neighbour.
\<close>

theorem retouch1D_column_1_nan_3:
  "map (\<lambda>i. dMemTable (snd (retouch1D 0 example_table [0, 1, 2] [0] COLS)) i 0) [0, 1, 2]
   = [Val 1, Val 3, Val 3]"
  by (simp add: retouch1D_def retouch_line_def fill_interpolated_def fill_copy_def rd_def wr_def
        ex_cells example_cells_def upt_rec Let_def)

subsection \<open>Sorting\<close>






































































end
